theory Spec2Isabelle
  imports Complex_Main
begin

section \<open>The ClickHouse connector of src/index.js\<close>

text \<open>
  The connector exports \<open>options\<close>, \<open>getRunner\<close> and \<open>testConnection\<close>. \<open>getRunner\<close>
  logs one debug line, builds a client of the database library and returns an
  asynchronous closure, the runner; the runner submits one query, reads the rows as
  JSON, derives the column types from the first row and returns the three together.
  Whatever is thrown inside its \<open>try\<close> block is logged and thrown again.

  The model is a shallow embedding. The console and the state of the network are
  passed along; a rejected promise is the left summand of the result; the database
  library, which is not part of the repository, is a parameter.
\<close>

subsection \<open>JSON values and rows\<close>

text \<open>
  A row of the \<open>JSONEachRow\<close> format is one JSON object. An object is kept as the list
  of its own properties in the order in which \<open>Object.keys\<close> enumerates them. An
  object has each key once; a property that depends on it has the hypothesis
  \<open>distinct (Object_keys r)\<close>. The type \<open>'n\<close> is the carrier of JavaScript numbers: the
  connector never computes with them.
\<close>

datatype 'n json =
    JNull
  | JBool bool
  | JNumber 'n
  | JString string
  | JArray "'n json list"
  | JObject "(string \<times> 'n json) list"

type_synonym 'n row = "(string \<times> 'n json) list"

text \<open>The \<open>typeof\<close> operator; \<open>None\<close> is \<open>undefined\<close>, the value of a missing property.\<close>

fun typeof :: "'n json option \<Rightarrow> string" where
  "typeof None = ''undefined''"
| "typeof (Some JNull) = ''object''"
| "typeof (Some (JBool b)) = ''boolean''"
| "typeof (Some (JNumber n)) = ''number''"
| "typeof (Some (JString s)) = ''string''"
| "typeof (Some (JArray xs)) = ''object''"
| "typeof (Some (JObject ps)) = ''object''"

definition Object_keys :: "'n row \<Rightarrow> string list" where
  "Object_keys obj = map fst obj"

text \<open>\<open>obj[key]\<close>: the value of the property, \<open>undefined\<close> when there is none.\<close>

definition get_property :: "'n row \<Rightarrow> string \<Rightarrow> 'n json option" where
  "get_property obj key = map_of obj key"

text \<open>\<open>result[0]\<close>: the first element, \<open>undefined\<close> for the empty array.\<close>

definition index0 :: "'a list \<Rightarrow> 'a option" where
  "index0 result = (case result of [] \<Rightarrow> None | r # _ \<Rightarrow> Some r)"

text \<open>\<open>v || {}\<close> for \<open>v\<close> an object or \<open>undefined\<close>: an object is truthy, \<open>undefined\<close> is not.\<close>

definition or_empty_object :: "'n row option \<Rightarrow> 'n row" where
  "or_empty_object v = (case v of None \<Rightarrow> [] | Some obj \<Rightarrow> obj)"

subsection \<open>Thrown values\<close>

text \<open>
  What the \<open>catch\<close> clause can receive: a value \<open>'e\<close> with which a promise of the
  database client was rejected, or the \<open>TypeError\<close> of reading a property of
  \<open>undefined\<close>.
\<close>

datatype 'e thrown = Rejected 'e | TypeError

text \<open>\<open>Array.prototype.map\<close> with a callback that may throw: the first throw ends the loop.\<close>

fun map_throw :: "('a \<Rightarrow> 'x + 'b) \<Rightarrow> 'a list \<Rightarrow> 'x + 'b list" where
  "map_throw f [] = Inr []"
| "map_throw f (x # xs) =
     (case f x of
        Inl e \<Rightarrow> Inl e
      | Inr y \<Rightarrow> (case map_throw f xs of Inl e \<Rightarrow> Inl e | Inr ys \<Rightarrow> Inr (y # ys)))"

subsection \<open>The result of a query\<close>

text \<open>
  Modelled from the spec: the enumeration \<open>EvidenceType\<close> is imported from the host
  framework's package and its declaration is not in the repository; the spec gives the
  inferred kind the two values the connector refers to.
\<close>

datatype EvidenceType = NUMBER | STRING

record columnType =
  name :: string
  evidenceType :: EvidenceType
  typeFidelity :: string

record 'n output_obj =
  rows :: "'n row list"
  columnTypes :: "columnType list"
  expectedRowCount :: nat

text \<open>The callback of lines 64 to 68; \<open>first\<close> is \<open>result[0]\<close>.\<close>

definition columnType_of :: "'n row option \<Rightarrow> string \<Rightarrow> 'e thrown + columnType" where
  "columnType_of first key =
     (case first of
        None \<Rightarrow> Inl TypeError
      | Some obj \<Rightarrow>
          Inr \<lparr>name = key,
               evidenceType =
                 (if typeof (get_property obj key) = ''number'' then NUMBER else STRING),
               typeFidelity = ''inferred''\<rparr>)"

text \<open>The object literal of lines 62 to 70.\<close>

definition transform :: "'n row list \<Rightarrow> 'e thrown + 'n output_obj" where
  "transform result =
     (case map_throw (columnType_of (index0 result))
             (Object_keys (or_empty_object (index0 result))) of
        Inl e \<Rightarrow> Inl e
      | Inr cts \<Rightarrow>
          Inr \<lparr>rows = result, columnTypes = cts, expectedRowCount = length result\<rparr>)"

subsection \<open>The database client\<close>

record client_config =
  url :: "string option"
  username :: "string option"
  password :: "string option"

text \<open>
  The connector's options are the three fields it hands to the client and the field
  \<open>SomeOption\<close> of the type comment at the head of the file. \<open>None\<close> is a field that is
  not set.
\<close>

record ConnectorOptions = client_config +
  SomeOption :: "string option"

record query_params =
  query :: string
  format :: string

text \<open>
  The library \<open>@clickhouse/client\<close> is not part of the repository and is a parameter.
  What lies beyond it (connections, the server, requests under way) is a state \<open>'net\<close>
  that only the library reads and changes: \<open>client.query\<close> takes it to a new state and
  resolves to a result set \<open>'rs\<close> or rejects, and so does the result set's \<open>json()\<close>,
  which resolves to the rows.
\<close>

text \<open>
  Modelled from the spec: \<open>createClient\<close>, the constructor of the library, instantiates
  one client handle bound to the given configuration, in memory; no connection is opened
  and no error is raised before a query is run. It is a function from the configuration
  to the handle \<open>'h\<close>.
\<close>

record ('h, 'rs, 'n, 'e, 'net) clickhouse =
  createClient :: "client_config \<Rightarrow> 'h"
  client_query :: "'h \<Rightarrow> query_params \<Rightarrow> 'net \<Rightarrow> ('e + 'rs) \<times> 'net"
  rows_json :: "'rs \<Rightarrow> 'net \<Rightarrow> ('e + 'n row list) \<times> 'net"

subsection \<open>The console and the network\<close>

datatype 'e console_call =
    console_debug string
  | console_error string "'e thrown"

record ('e, 'net) world =
  console :: "'e console_call list"
  network :: 'net

text \<open>A template literal turns \<open>undefined\<close> into the text \<open>undefined\<close>.\<close>

definition template_string :: "string option \<Rightarrow> string" where
  "template_string v = (case v of None \<Rightarrow> ''undefined'' | Some s \<Rightarrow> s)"

subsection \<open>The runner\<close>

text \<open>
  The body of the \<open>try\<close> block, lines 54 to 72: one call of \<open>client.query\<close>, then one
  call of \<open>json()\<close> on what it resolved to, then the object literal.
\<close>

definition try_block ::
  "('h, 'rs, 'n, 'e, 'net) clickhouse \<Rightarrow> 'h \<Rightarrow> query_params \<Rightarrow> 'net \<Rightarrow>
     ('e thrown + 'n output_obj) \<times> 'net" where
  "try_block lib client params net =
     (case client_query lib client params net of
        (Inl e, net1) \<Rightarrow> (Inl (Rejected e), net1)
      | (Inr rs, net1) \<Rightarrow>
          (case rows_json lib rs net1 of
             (Inl e, net2) \<Rightarrow> (Inl (Rejected e), net2)
           | (Inr result, net2) \<Rightarrow> (transform result, net2)))"

text \<open>The closure of lines 52 to 77. The second argument is \<open>queryPath\<close>.\<close>

definition runner ::
  "('h, 'rs, 'n, 'e, 'net) clickhouse \<Rightarrow> 'h \<Rightarrow> string \<Rightarrow> 'p \<Rightarrow> ('e, 'net) world \<Rightarrow>
     ('e thrown + 'n output_obj) \<times> ('e, 'net) world" where
  "runner lib client queryText queryPath w =
     (case try_block lib client \<lparr>query = queryText, format = ''JSONEachRow''\<rparr> (network w) of
        (Inr out, net) \<Rightarrow> (Inr out, w\<lparr>network := net\<rparr>)
      | (Inl error, net) \<Rightarrow>
          (Inl error,
           w\<lparr>network := net,
             console := console w @ [console_error ''Error executing query:'' error]\<rparr>))"

text \<open>\<open>getRunner\<close>, lines 43 to 78.\<close>

definition getRunner ::
  "('h, 'rs, 'n, 'e, 'net) clickhouse \<Rightarrow> ConnectorOptions \<Rightarrow> ('e, 'net) world \<Rightarrow>
     (string \<Rightarrow> 'p \<Rightarrow> ('e, 'net) world \<Rightarrow> ('e thrown + 'n output_obj) \<times> ('e, 'net) world)
     \<times> ('e, 'net) world" where
  "getRunner lib options w =
     (let w1 = w\<lparr>console := console w @
                  [console_debug (''SomeOption = '' @ template_string (SomeOption options))]\<rparr>;
          client = createClient lib
                     \<lparr>url = url options, username = username options,
                      password = password options\<rparr>
      in (runner lib client, w1))"

text \<open>\<open>testConnection\<close>, lines 122 to 124.\<close>

definition testConnection ::
  "ConnectorOptions \<Rightarrow> ('e, 'net) world \<Rightarrow> bool \<times> ('e, 'net) world" where
  "testConnection opts w = (True, w)"

subsection \<open>Clients, options and rows for the examples\<close>

text \<open>
  Four stand-ins for the database library. Their network state is the list of the
  requests that were sent. One answers every query with the given rows, one rejects
  every \<open>query\<close> (an address that cannot be reached), one rejects \<open>json()\<close> (a response
  that breaks off), and one rejects every \<open>query\<close> with a value that holds the
  configuration of the handle.
\<close>

definition answering ::
  "'n row list \<Rightarrow> (client_config, unit, 'n, string, query_params list) clickhouse" where
  "answering result =
     \<lparr>createClient = (\<lambda>cfg. cfg),
      client_query = (\<lambda>client params net. (Inr (), net @ [params])),
      rows_json = (\<lambda>rs net. (Inr result, net))\<rparr>"

definition unreachable ::
  "string \<Rightarrow> (client_config, unit, 'n, string, query_params list) clickhouse" where
  "unreachable e =
     \<lparr>createClient = (\<lambda>cfg. cfg),
      client_query = (\<lambda>client params net. (Inl e, net @ [params])),
      rows_json = (\<lambda>rs net. (Inr [], net))\<rparr>"

definition truncated ::
  "string \<Rightarrow> (client_config, unit, 'n, string, query_params list) clickhouse" where
  "truncated e =
     \<lparr>createClient = (\<lambda>cfg. cfg),
      client_query = (\<lambda>client params net. (Inr (), net @ [params])),
      rows_json = (\<lambda>rs net. (Inl e, net))\<rparr>"

definition telling ::
  "(client_config, unit, 'n, client_config, query_params list) clickhouse" where
  "telling =
     \<lparr>createClient = (\<lambda>cfg. cfg),
      client_query = (\<lambda>client params net. (Inl client, net @ [params])),
      rows_json = (\<lambda>rs net. (Inr [], net))\<rparr>"

definition local_options :: ConnectorOptions where
  "local_options =
     \<lparr>url = Some ''http://localhost:8123'', username = Some ''default'',
      password = Some ''hunter2'', SomeOption = None\<rparr>"

definition local_client :: client_config where
  "local_client =
     \<lparr>url = Some ''http://localhost:8123'', username = Some ''default'',
      password = Some ''hunter2''\<rparr>"

definition quiet :: "('e, query_params list) world" where
  "quiet = \<lparr>console = [], network = []\<rparr>"

definition mixed_row :: "real row" where
  "mixed_row =
     [(''a'', JNumber 1), (''b'', JString ''x''), (''c'', JNull), (''d'', JBool True),
      (''e'', JObject [(''f'', JNumber 2)]), (''g'', JArray [JNumber 3])]"

definition two_rows :: "real row list" where
  "two_rows =
     [[(''a'', JNumber 1), (''b'', JString ''x'')],
      [(''a'', JNumber 2.5), (''b'', JString ''y'')]]"

section \<open>Auxiliary facts\<close>

lemma map_throw_Inr: "map_throw (\<lambda>x. Inr (g x)) xs = Inr (map g xs)"
  by (induction xs) simp_all

lemma columnType_of_Some:
  "columnType_of (Some obj) =
     (\<lambda>key. Inr \<lparr>name = key,
                    evidenceType =
                      (if typeof (get_property obj key) = ''number'' then NUMBER else STRING),
                    typeFidelity = ''inferred''\<rparr>)"
  by (rule ext) (simp add: columnType_of_def)

lemma transform_Nil:
  "transform [] = Inr \<lparr>rows = [], columnTypes = [], expectedRowCount = 0\<rparr>"
  by (simp add: transform_def index0_def or_empty_object_def Object_keys_def)

lemma transform_Cons:
  "transform (r # rest) =
     Inr \<lparr>rows = r # rest,
          columnTypes =
            map (\<lambda>key. \<lparr>name = key,
                         evidenceType =
                           (if typeof (get_property r key) = ''number'' then NUMBER else STRING),
                         typeFidelity = ''inferred''\<rparr>)
                (Object_keys r),
          expectedRowCount = Suc (length rest)\<rparr>"
  by (simp add: transform_def index0_def or_empty_object_def columnType_of_Some map_throw_Inr)

lemma transform_returns:
  "\<exists>cts. transform result =
     Inr \<lparr>rows = result, columnTypes = cts, expectedRowCount = length result\<rparr>"
  by (cases result) (simp_all add: transform_Nil transform_Cons)

lemma typeof_number: "typeof (Some v) = ''number'' \<longleftrightarrow> (\<exists>n. v = JNumber n)"
  by (cases v) simp_all

lemma get_property_nth:
  "distinct (Object_keys r) \<Longrightarrow> i < length r \<Longrightarrow> get_property r (fst (r ! i)) = Some (snd (r ! i))"
  by (simp add: get_property_def Object_keys_def)

lemma runner_delivers:
  fixes lib :: "('h, 'rs, 'n, 'e, 'net) clickhouse"
  assumes "client_query lib client \<lparr>query = q, format = ''JSONEachRow''\<rparr> (network w) =
             (Inr rs, n1)"
    and "rows_json lib rs n1 = (Inr result, n2)"
  shows "runner lib client q p w = (transform result, w\<lparr>network := n2\<rparr>)"
proof -
  obtain out :: "'n output_obj" where "(transform result :: 'e thrown + 'n output_obj) = Inr out"
    using transform_returns [of result] by blast
  with assms show ?thesis
    by (simp add: runner_def try_block_def)
qed

lemma runner_Inr_D:
  fixes lib :: "('h, 'rs, 'n, 'e, 'net) clickhouse"
  assumes "fst (runner lib client q p w) = Inr out"
  shows "\<exists>rs n1 result n2.
           client_query lib client \<lparr>query = q, format = ''JSONEachRow''\<rparr> (network w) =
             (Inr rs, n1) \<and>
           rows_json lib rs n1 = (Inr result, n2) \<and>
           (transform result :: 'e thrown + 'n output_obj) = Inr out"
  using assms
  by (auto simp add: runner_def try_block_def split: sum.splits prod.splits)

section \<open>Properties\<close>

text \<open>
  C1: the kind of a column is a function of the value the first row has in that column
  and of nothing else: \<open>NUMBER\<close> exactly when that value is a number, \<open>STRING\<close> for a
  string, \<open>null\<close>, a boolean and an object or array.
\<close>

theorem first_row_type_inference:
  fixes lib :: "('h, 'rs, 'n, 'e, 'net) clickhouse"
  assumes "client_query lib client \<lparr>query = q, format = ''JSONEachRow''\<rparr> (network w) =
             (Inr rs, n1)"
    and "rows_json lib rs n1 = (Inr (r # rest), n2)"
    and "distinct (Object_keys r)"
  shows "\<exists>out. fst (runner lib client q p w) = Inr out \<and>
           map name (columnTypes out) = map fst r \<and>
           map evidenceType (columnTypes out) =
             map (\<lambda>(key, v). case v of
                     JNumber n \<Rightarrow> NUMBER
                   | JString s \<Rightarrow> STRING
                   | JNull \<Rightarrow> STRING
                   | JBool b \<Rightarrow> STRING
                   | JObject ps \<Rightarrow> STRING
                   | JArray xs \<Rightarrow> STRING) r"
proof -
  have kind: "(if typeof (get_property r (fst (r ! i))) = ''number'' then NUMBER else STRING) =
      (case snd (r ! i) of JNumber n \<Rightarrow> NUMBER | JString s \<Rightarrow> STRING | JNull \<Rightarrow> STRING
       | JBool b \<Rightarrow> STRING | JObject ps \<Rightarrow> STRING | JArray xs \<Rightarrow> STRING)"
    if "i < length r" for i
    using get_property_nth [OF assms(3) that] by (cases "snd (r ! i)") simp_all
  have "map (\<lambda>key. if typeof (get_property r key) = ''number'' then NUMBER else STRING)
          (Object_keys r) =
        map (\<lambda>(key, v). case v of JNumber n \<Rightarrow> NUMBER | JString s \<Rightarrow> STRING | JNull \<Rightarrow> STRING
          | JBool b \<Rightarrow> STRING | JObject ps \<Rightarrow> STRING | JArray xs \<Rightarrow> STRING) r"
    by (rule nth_equalityI) (simp_all add: Object_keys_def kind case_prod_beta)
  then show ?thesis
    by (simp add: runner_delivers [OF assms(1,2)] transform_Cons Object_keys_def comp_def)
qed

theorem first_row_type_inference_witness:
  "client_query (answering [mixed_row]) local_client
       \<lparr>query = ''SELECT * FROM t'', format = ''JSONEachRow''\<rparr>
       (network (quiet :: (string, query_params list) world)) =
     (Inr (), [\<lparr>query = ''SELECT * FROM t'', format = ''JSONEachRow''\<rparr>]) \<and>
   rows_json (answering [mixed_row]) ()
       [\<lparr>query = ''SELECT * FROM t'', format = ''JSONEachRow''\<rparr>] =
     (Inr (mixed_row # []), [\<lparr>query = ''SELECT * FROM t'', format = ''JSONEachRow''\<rparr>]) \<and>
   distinct (Object_keys mixed_row) \<and>
   (\<exists>out. fst (runner (answering [mixed_row]) local_client ''SELECT * FROM t'' ''t.sql'' quiet)
            = Inr out \<and>
      map name (columnTypes out) = [''a'', ''b'', ''c'', ''d'', ''e'', ''g''] \<and>
      map evidenceType (columnTypes out) = [NUMBER, STRING, STRING, STRING, STRING, STRING])"
proof -
  have h1: "client_query (answering [mixed_row]) local_client
       \<lparr>query = ''SELECT * FROM t'', format = ''JSONEachRow''\<rparr>
       (network (quiet :: (string, query_params list) world)) =
     (Inr (), [\<lparr>query = ''SELECT * FROM t'', format = ''JSONEachRow''\<rparr>])"
    by (simp add: answering_def quiet_def)
  have h2: "rows_json (answering [mixed_row]) ()
       [\<lparr>query = ''SELECT * FROM t'', format = ''JSONEachRow''\<rparr>] =
     (Inr (mixed_row # []), [\<lparr>query = ''SELECT * FROM t'', format = ''JSONEachRow''\<rparr>])"
    by (simp add: answering_def)
  have h3: "distinct (Object_keys mixed_row)"
    by (simp add: Object_keys_def mixed_row_def)
  show ?thesis
    using h1 h2 h3 first_row_type_inference [OF h1 h2 h3, of "''t.sql''"]
    by (simp add: mixed_row_def)
qed

text \<open>
  C2: the column types come from the first row alone. For a result with at least one
  row they are one descriptor for each key of the first row, in the order in which the
  keys are enumerated and named after them, so that their number is the number of
  distinct keys; for a result without rows there is none.
\<close>

theorem columnTypes_from_first_row:
  fixes lib :: "('h, 'rs, 'n, 'e, 'net) clickhouse"
  assumes "client_query lib client \<lparr>query = q, format = ''JSONEachRow''\<rparr> (network w) =
             (Inr rs, n1)"
    and "rows_json lib rs n1 = (Inr result, n2)"
  shows "\<exists>out. fst (runner lib client q p w) = Inr out \<and>
           (case result of
              [] \<Rightarrow> columnTypes out = []
            | r # rest \<Rightarrow>
                columnTypes out =
                  map (\<lambda>key. \<lparr>name = key,
                               evidenceType =
                                 (if typeof (get_property r key) = ''number''
                                  then NUMBER else STRING),
                               typeFidelity = ''inferred''\<rparr>)
                      (Object_keys r) \<and>
                map name (columnTypes out) = Object_keys r \<and>
                (distinct (Object_keys r) \<longrightarrow>
                   length (columnTypes out) = card (set (Object_keys r))))"
proof (cases result)
  case Nil
  then show ?thesis
    by (simp add: runner_delivers [OF assms] transform_Nil)
next
  case (Cons r rest)
  then show ?thesis
    by (simp add: runner_delivers [OF assms] transform_Cons comp_def distinct_card)
qed

theorem columnTypes_from_first_row_witness:
  "client_query (answering (mixed_row # two_rows)) local_client
       \<lparr>query = ''SELECT * FROM t'', format = ''JSONEachRow''\<rparr>
       (network (quiet :: (string, query_params list) world)) =
     (Inr (), [\<lparr>query = ''SELECT * FROM t'', format = ''JSONEachRow''\<rparr>]) \<and>
   rows_json (answering (mixed_row # two_rows)) ()
       [\<lparr>query = ''SELECT * FROM t'', format = ''JSONEachRow''\<rparr>] =
     (Inr (mixed_row # two_rows), [\<lparr>query = ''SELECT * FROM t'', format = ''JSONEachRow''\<rparr>]) \<and>
   distinct (Object_keys mixed_row) \<and>
   Object_keys mixed_row = [''a'', ''b'', ''c'', ''d'', ''e'', ''g''] \<and>
   (\<exists>out. fst (runner (answering (mixed_row # two_rows)) local_client ''SELECT * FROM t''
                 ''t.sql'' quiet) = Inr out \<and>
      map name (columnTypes out) = Object_keys mixed_row \<and>
      length (columnTypes out) = card (set (Object_keys mixed_row))) \<and>
   (\<exists>out. fst (runner (answering ([] :: real row list)) local_client ''SELECT * FROM t''
                 ''t.sql'' quiet) = Inr out \<and>
      columnTypes out = [])"
proof -
  have h1: "client_query (answering (mixed_row # two_rows)) local_client
       \<lparr>query = ''SELECT * FROM t'', format = ''JSONEachRow''\<rparr>
       (network (quiet :: (string, query_params list) world)) =
     (Inr (), [\<lparr>query = ''SELECT * FROM t'', format = ''JSONEachRow''\<rparr>])"
    by (simp add: answering_def quiet_def)
  have h2: "rows_json (answering (mixed_row # two_rows)) ()
       [\<lparr>query = ''SELECT * FROM t'', format = ''JSONEachRow''\<rparr>] =
     (Inr (mixed_row # two_rows), [\<lparr>query = ''SELECT * FROM t'', format = ''JSONEachRow''\<rparr>])"
    by (simp add: answering_def)
  have k: "Object_keys mixed_row = [''a'', ''b'', ''c'', ''d'', ''e'', ''g'']"
    by (simp add: Object_keys_def mixed_row_def)
  have h3: "distinct (Object_keys mixed_row)"
    unfolding k by simp
  have e1: "client_query (answering ([] :: real row list)) local_client
       \<lparr>query = ''SELECT * FROM t'', format = ''JSONEachRow''\<rparr>
       (network (quiet :: (string, query_params list) world)) =
     (Inr (), [\<lparr>query = ''SELECT * FROM t'', format = ''JSONEachRow''\<rparr>])"
    by (simp add: answering_def quiet_def)
  have e2: "rows_json (answering ([] :: real row list)) ()
       [\<lparr>query = ''SELECT * FROM t'', format = ''JSONEachRow''\<rparr>] =
     (Inr [], [\<lparr>query = ''SELECT * FROM t'', format = ''JSONEachRow''\<rparr>])"
    by (simp add: answering_def)
  have full: "\<exists>out. fst (runner (answering (mixed_row # two_rows)) local_client
                  ''SELECT * FROM t'' ''t.sql'' quiet) = Inr out \<and>
      map name (columnTypes out) = Object_keys mixed_row \<and>
      length (columnTypes out) = card (set (Object_keys mixed_row))"
    using columnTypes_from_first_row [OF h1 h2, of "''t.sql''"] h3
    by (simp only: list.case) blast
  have empty: "\<exists>out. fst (runner (answering ([] :: real row list)) local_client
                  ''SELECT * FROM t'' ''t.sql'' quiet) = Inr out \<and> columnTypes out = []"
    using columnTypes_from_first_row [OF e1 e2, of "''t.sql''"]
    by (simp only: list.case)
  show ?thesis
    using h1 h2 h3 k full empty by (intro conjI)
qed

text \<open>
  C3: in every result that the runner returns, \<open>expectedRowCount\<close> is the length of
  \<open>rows\<close>; it is 0 when there are no rows.
\<close>

theorem expectedRowCount_is_length:
  fixes lib :: "('h, 'rs, 'n, 'e, 'net) clickhouse"
  assumes "fst (runner lib client q p w) = Inr out"
  shows "expectedRowCount out = length (rows out) \<and>
         (rows out = [] \<longrightarrow> expectedRowCount out = 0)"
proof -
  obtain result where "(transform result :: 'e thrown + 'n output_obj) = Inr out"
    using runner_Inr_D [OF assms] by blast
  moreover have "\<exists>cts. (transform result :: 'e thrown + 'n output_obj) =
      Inr \<lparr>rows = result, columnTypes = cts, expectedRowCount = length result\<rparr>"
    by (rule transform_returns)
  ultimately have "expectedRowCount out = length (rows out)"
    by auto
  then show ?thesis by simp
qed

theorem expectedRowCount_is_length_witness:
  "fst (runner (answering two_rows) local_client ''SELECT a, b FROM t'' ''t.sql''
          (quiet :: (string, query_params list) world)) =
     Inr \<lparr>rows = two_rows,
          columnTypes =
            [\<lparr>name = ''a'', evidenceType = NUMBER, typeFidelity = ''inferred''\<rparr>,
             \<lparr>name = ''b'', evidenceType = STRING, typeFidelity = ''inferred''\<rparr>],
          expectedRowCount = 2\<rparr> \<and>
   expectedRowCount
     \<lparr>rows = two_rows,
      columnTypes =
        [\<lparr>name = ''a'', evidenceType = NUMBER, typeFidelity = ''inferred''\<rparr>,
         \<lparr>name = ''b'', evidenceType = STRING, typeFidelity = ''inferred''\<rparr>],
      expectedRowCount = 2\<rparr> = length two_rows \<and>
   fst (runner (answering ([] :: real row list)) local_client ''SELECT a, b FROM t'' ''t.sql''
          (quiet :: (string, query_params list) world)) =
     Inr \<lparr>rows = [], columnTypes = [], expectedRowCount = 0\<rparr>"
proof -
  have h: "fst (runner (answering two_rows) local_client ''SELECT a, b FROM t'' ''t.sql''
          (quiet :: (string, query_params list) world)) =
     Inr \<lparr>rows = two_rows,
          columnTypes =
            [\<lparr>name = ''a'', evidenceType = NUMBER, typeFidelity = ''inferred''\<rparr>,
             \<lparr>name = ''b'', evidenceType = STRING, typeFidelity = ''inferred''\<rparr>],
          expectedRowCount = 2\<rparr>"
    by (simp add: runner_def try_block_def answering_def transform_def index0_def
        or_empty_object_def Object_keys_def columnType_of_def get_property_def two_rows_def)
  have e: "fst (runner (answering ([] :: real row list)) local_client ''SELECT a, b FROM t''
          ''t.sql'' (quiet :: (string, query_params list) world)) =
     Inr \<lparr>rows = [], columnTypes = [], expectedRowCount = 0\<rparr>"
    by (simp add: runner_def try_block_def answering_def transform_def index0_def
        or_empty_object_def Object_keys_def)
  show ?thesis
    using h e expectedRowCount_is_length [OF h] expectedRowCount_is_length [OF e]
    by simp
qed

text \<open>
  C4: the rows that the client delivers are returned as they are. No value is changed to
  fit the kind inferred for its column.
\<close>

theorem rows_pass_through:
  fixes lib :: "('h, 'rs, 'n, 'e, 'net) clickhouse"
  assumes "client_query lib client \<lparr>query = q, format = ''JSONEachRow''\<rparr> (network w) =
             (Inr rs, n1)"
    and "rows_json lib rs n1 = (Inr result, n2)"
  shows "\<exists>out. fst (runner lib client q p w) = Inr out \<and> rows out = result"
proof -
  obtain cts where "(transform result :: 'e thrown + 'n output_obj) =
      Inr \<lparr>rows = result, columnTypes = cts, expectedRowCount = length result\<rparr>"
    using transform_returns by blast
  then show ?thesis
    by (simp add: runner_delivers [OF assms])
qed

theorem rows_pass_through_witness:
  "client_query (answering two_rows) local_client
       \<lparr>query = ''SELECT a, b FROM t'', format = ''JSONEachRow''\<rparr>
       (network (quiet :: (string, query_params list) world)) =
     (Inr (), [\<lparr>query = ''SELECT a, b FROM t'', format = ''JSONEachRow''\<rparr>]) \<and>
   rows_json (answering two_rows) ()
       [\<lparr>query = ''SELECT a, b FROM t'', format = ''JSONEachRow''\<rparr>] =
     (Inr two_rows, [\<lparr>query = ''SELECT a, b FROM t'', format = ''JSONEachRow''\<rparr>]) \<and>
   (\<exists>out. fst (runner (answering two_rows) local_client ''SELECT a, b FROM t'' ''t.sql'' quiet)
            = Inr out \<and>
      rows out = two_rows \<and>
      rows out ! 1 = [(''a'', JNumber 2.5), (''b'', JString ''y'')])"
proof -
  have h1: "client_query (answering two_rows) local_client
       \<lparr>query = ''SELECT a, b FROM t'', format = ''JSONEachRow''\<rparr>
       (network (quiet :: (string, query_params list) world)) =
     (Inr (), [\<lparr>query = ''SELECT a, b FROM t'', format = ''JSONEachRow''\<rparr>])"
    by (simp add: answering_def quiet_def)
  have h2: "rows_json (answering two_rows) ()
       [\<lparr>query = ''SELECT a, b FROM t'', format = ''JSONEachRow''\<rparr>] =
     (Inr two_rows, [\<lparr>query = ''SELECT a, b FROM t'', format = ''JSONEachRow''\<rparr>])"
    by (simp add: answering_def)
  have n: "two_rows ! 1 = [(''a'', JNumber 2.5), (''b'', JString ''y'')]"
    by (simp add: two_rows_def)
  obtain out where
    "fst (runner (answering two_rows) local_client ''SELECT a, b FROM t'' ''t.sql''
            (quiet :: (string, query_params list) world)) = Inr out"
    and "rows out = two_rows"
    using rows_pass_through [OF h1 h2, of "''t.sql''"] by blast
  with h1 h2 n show ?thesis by simp
qed

text \<open>
  C5: when the client rejects, at the submission of the query or when the rows are read,
  the runner writes one error entry to the console and rejects with the same value. It
  returns no result, and the network is left as that one call of \<open>query\<close>, or that call
  and the one of \<open>json()\<close>, left it: nothing is tried again.
\<close>

theorem failure_logged_once_and_rethrown:
  fixes lib :: "('h, 'rs, 'n, 'e, 'net) clickhouse"
  assumes "client_query lib client \<lparr>query = q, format = ''JSONEachRow''\<rparr> (network w) =
             (Inl e, n) \<or>
           (\<exists>rs n1. client_query lib client \<lparr>query = q, format = ''JSONEachRow''\<rparr>
                         (network w) = (Inr rs, n1) \<and>
                    rows_json lib rs n1 = (Inl e, n))"
  shows "runner lib client q p w =
           (Inl (Rejected e),
            w\<lparr>network := n,
              console := console w @ [console_error ''Error executing query:'' (Rejected e)]\<rparr>)"
  using assms
  by (auto simp add: runner_def try_block_def)

theorem failure_logged_once_and_rethrown_witness:
  "client_query (unreachable ''ECONNREFUSED'' :: (client_config, unit, real, string, query_params list) clickhouse)
       local_client \<lparr>query = ''SELECT 1'', format = ''JSONEachRow''\<rparr>
       (network (quiet :: (string, query_params list) world)) =
     (Inl ''ECONNREFUSED'', [\<lparr>query = ''SELECT 1'', format = ''JSONEachRow''\<rparr>]) \<and>
   runner (unreachable ''ECONNREFUSED'' :: (client_config, unit, real, string, query_params list) clickhouse)
       local_client ''SELECT 1'' ''q.sql'' quiet =
     (Inl (Rejected ''ECONNREFUSED''),
      \<lparr>console = [console_error ''Error executing query:'' (Rejected ''ECONNREFUSED'')],
       network = [\<lparr>query = ''SELECT 1'', format = ''JSONEachRow''\<rparr>]\<rparr>) \<and>
   client_query (truncated ''aborted'' :: (client_config, unit, real, string, query_params list) clickhouse)
       local_client \<lparr>query = ''SELECT 1'', format = ''JSONEachRow''\<rparr>
       (network (quiet :: (string, query_params list) world)) =
     (Inr (), [\<lparr>query = ''SELECT 1'', format = ''JSONEachRow''\<rparr>]) \<and>
   rows_json (truncated ''aborted'' :: (client_config, unit, real, string, query_params list) clickhouse) ()
       [\<lparr>query = ''SELECT 1'', format = ''JSONEachRow''\<rparr>] =
     (Inl ''aborted'', [\<lparr>query = ''SELECT 1'', format = ''JSONEachRow''\<rparr>]) \<and>
   runner (truncated ''aborted'' :: (client_config, unit, real, string, query_params list) clickhouse)
       local_client ''SELECT 1'' ''q.sql'' quiet =
     (Inl (Rejected ''aborted''),
      \<lparr>console = [console_error ''Error executing query:'' (Rejected ''aborted'')],
       network = [\<lparr>query = ''SELECT 1'', format = ''JSONEachRow''\<rparr>]\<rparr>)"
proof -
  have h1: "client_query (unreachable ''ECONNREFUSED'' :: (client_config, unit, real, string, query_params list) clickhouse)
       local_client \<lparr>query = ''SELECT 1'', format = ''JSONEachRow''\<rparr>
       (network (quiet :: (string, query_params list) world)) =
     (Inl ''ECONNREFUSED'', [\<lparr>query = ''SELECT 1'', format = ''JSONEachRow''\<rparr>])"
    by (simp add: unreachable_def quiet_def)
  have h2: "client_query (truncated ''aborted'' :: (client_config, unit, real, string, query_params list) clickhouse)
       local_client \<lparr>query = ''SELECT 1'', format = ''JSONEachRow''\<rparr>
       (network (quiet :: (string, query_params list) world)) =
     (Inr (), [\<lparr>query = ''SELECT 1'', format = ''JSONEachRow''\<rparr>])"
    by (simp add: truncated_def quiet_def)
  have h3: "rows_json (truncated ''aborted'' :: (client_config, unit, real, string, query_params list) clickhouse) ()
       [\<lparr>query = ''SELECT 1'', format = ''JSONEachRow''\<rparr>] =
     (Inl ''aborted'', [\<lparr>query = ''SELECT 1'', format = ''JSONEachRow''\<rparr>])"
    by (simp add: truncated_def)
  have a: "runner (unreachable ''ECONNREFUSED'' :: (client_config, unit, real, string, query_params list) clickhouse)
       local_client ''SELECT 1'' ''q.sql'' quiet =
     (Inl (Rejected ''ECONNREFUSED''),
      \<lparr>console = [console_error ''Error executing query:'' (Rejected ''ECONNREFUSED'')],
       network = [\<lparr>query = ''SELECT 1'', format = ''JSONEachRow''\<rparr>]\<rparr>)"
    using failure_logged_once_and_rethrown [OF disjI1, OF h1, of "''q.sql''"]
    by (simp add: quiet_def)
  have ex: "\<exists>rs n1. client_query (truncated ''aborted'' :: (client_config, unit, real, string, query_params list) clickhouse)
       local_client \<lparr>query = ''SELECT 1'', format = ''JSONEachRow''\<rparr>
       (network (quiet :: (string, query_params list) world)) = (Inr rs, n1) \<and>
       rows_json (truncated ''aborted'' :: (client_config, unit, real, string, query_params list) clickhouse) rs n1 =
         (Inl ''aborted'', [\<lparr>query = ''SELECT 1'', format = ''JSONEachRow''\<rparr>])"
    using h2 h3 by blast
  have b: "runner (truncated ''aborted'' :: (client_config, unit, real, string, query_params list) clickhouse)
       local_client ''SELECT 1'' ''q.sql'' quiet =
     (Inl (Rejected ''aborted''),
      \<lparr>console = [console_error ''Error executing query:'' (Rejected ''aborted'')],
       network = [\<lparr>query = ''SELECT 1'', format = ''JSONEachRow''\<rparr>]\<rparr>)"
    using failure_logged_once_and_rethrown [OF disjI2, OF ex, of "''q.sql''"]
    by (simp add: quiet_def)
  show ?thesis
    using h1 h2 h3 a b by (intro conjI)
qed

text \<open>
  C6: \<open>testConnection\<close> answers \<open>true\<close> for every configuration, whatever its
  address and credentials, and does nothing else.
\<close>

theorem testConnection_always_true: "testConnection opts w = (True, w)"
  by (simp add: testConnection_def)

text \<open>
  C7: every column type of every result that the runner returns has the fidelity
  \<open>inferred\<close>.
\<close>

theorem typeFidelity_always_inferred:
  fixes lib :: "('h, 'rs, 'n, 'e, 'net) clickhouse"
  assumes "fst (runner lib client q p w) = Inr out"
  shows "\<forall>ct \<in> set (columnTypes out). typeFidelity ct = ''inferred''"
proof -
  obtain result where t: "(transform result :: 'e thrown + 'n output_obj) = Inr out"
    using runner_Inr_D [OF assms] by blast
  show ?thesis
  proof (cases result)
    case Nil
    with t show ?thesis by (auto simp add: transform_Nil)
  next
    case (Cons r rest)
    with t show ?thesis by (auto simp add: transform_Cons)
  qed
qed

theorem typeFidelity_always_inferred_witness:
  "fst (runner (answering [mixed_row]) local_client ''SELECT * FROM t'' ''t.sql''
          (quiet :: (string, query_params list) world)) =
     Inr \<lparr>rows = [mixed_row],
          columnTypes =
            [\<lparr>name = ''a'', evidenceType = NUMBER, typeFidelity = ''inferred''\<rparr>,
             \<lparr>name = ''b'', evidenceType = STRING, typeFidelity = ''inferred''\<rparr>,
             \<lparr>name = ''c'', evidenceType = STRING, typeFidelity = ''inferred''\<rparr>,
             \<lparr>name = ''d'', evidenceType = STRING, typeFidelity = ''inferred''\<rparr>,
             \<lparr>name = ''e'', evidenceType = STRING, typeFidelity = ''inferred''\<rparr>,
             \<lparr>name = ''g'', evidenceType = STRING, typeFidelity = ''inferred''\<rparr>],
          expectedRowCount = 1\<rparr> \<and>
   list_all (\<lambda>ct. typeFidelity ct = ''inferred'')
     (columnTypes
        \<lparr>rows = [mixed_row],
         columnTypes =
           [\<lparr>name = ''a'', evidenceType = NUMBER, typeFidelity = ''inferred''\<rparr>,
            \<lparr>name = ''b'', evidenceType = STRING, typeFidelity = ''inferred''\<rparr>,
            \<lparr>name = ''c'', evidenceType = STRING, typeFidelity = ''inferred''\<rparr>,
            \<lparr>name = ''d'', evidenceType = STRING, typeFidelity = ''inferred''\<rparr>,
            \<lparr>name = ''e'', evidenceType = STRING, typeFidelity = ''inferred''\<rparr>,
            \<lparr>name = ''g'', evidenceType = STRING, typeFidelity = ''inferred''\<rparr>],
         expectedRowCount = 1\<rparr>)"
proof -
  have h: "fst (runner (answering [mixed_row]) local_client ''SELECT * FROM t'' ''t.sql''
          (quiet :: (string, query_params list) world)) =
     Inr \<lparr>rows = [mixed_row],
          columnTypes =
            [\<lparr>name = ''a'', evidenceType = NUMBER, typeFidelity = ''inferred''\<rparr>,
             \<lparr>name = ''b'', evidenceType = STRING, typeFidelity = ''inferred''\<rparr>,
             \<lparr>name = ''c'', evidenceType = STRING, typeFidelity = ''inferred''\<rparr>,
             \<lparr>name = ''d'', evidenceType = STRING, typeFidelity = ''inferred''\<rparr>,
             \<lparr>name = ''e'', evidenceType = STRING, typeFidelity = ''inferred''\<rparr>,
             \<lparr>name = ''g'', evidenceType = STRING, typeFidelity = ''inferred''\<rparr>],
          expectedRowCount = 1\<rparr>"
    by (simp add: runner_def try_block_def answering_def transform_def index0_def
        or_empty_object_def Object_keys_def columnType_of_def get_property_def mixed_row_def)
  show ?thesis
    using h typeFidelity_always_inferred [OF h]
    by (simp only: list_all_iff simp_thms)
qed

text \<open>
  C8 as stated asks that the construction has no effect besides the client handle. It
  has one: \<open>getRunner\<close> writes a debug line to the console, here for options that set
  no \<open>SomeOption\<close> and a server that cannot be reached.
\<close>

theorem construction_logs_a_debug_line:
  "console (snd (getRunner
       (unreachable ''ECONNREFUSED''
          :: (client_config, unit, real, string, query_params list) clickhouse)
       local_options quiet
     :: (string \<Rightarrow> string \<Rightarrow> (string, query_params list) world \<Rightarrow>
           (string thrown + real output_obj) \<times> (string, query_params list) world)
        \<times> (string, query_params list) world)) = [console_debug ''SomeOption = undefined''] \<and>
   snd (getRunner
       (unreachable ''ECONNREFUSED''
          :: (client_config, unit, real, string, query_params list) clickhouse)
       local_options quiet
     :: (string \<Rightarrow> string \<Rightarrow> (string, query_params list) world \<Rightarrow>
           (string thrown + real output_obj) \<times> (string, query_params list) world)
        \<times> (string, query_params list) world) \<noteq> quiet"
  by (simp add: getRunner_def local_options_def quiet_def template_string_def)

text \<open>
  C8, amended: for every configuration \<open>getRunner\<close> returns the runner, bound to the
  handle set up from url, username and password, without network I/O and without raising
  an error, also when the address cannot be reached: the state of the network after the
  construction is the one before it. Besides the handle, the construction has one effect:
  a debug line on the console that shows \<open>SomeOption\<close>.
\<close>

theorem construction_effects:
  fixes lib :: "('h, 'rs, 'n, 'e, 'net) clickhouse"
  shows "fst (getRunner lib opts w
           :: (string \<Rightarrow> 'p \<Rightarrow> ('e, 'net) world \<Rightarrow>
                 ('e thrown + 'n output_obj) \<times> ('e, 'net) world) \<times> ('e, 'net) world) =
           runner lib
             (createClient lib
                \<lparr>url = url opts, username = username opts, password = password opts\<rparr>) \<and>
         network (snd (getRunner lib opts w
           :: (string \<Rightarrow> 'p \<Rightarrow> ('e, 'net) world \<Rightarrow>
                 ('e thrown + 'n output_obj) \<times> ('e, 'net) world) \<times> ('e, 'net) world)) =
           network w \<and>
         console (snd (getRunner lib opts w
           :: (string \<Rightarrow> 'p \<Rightarrow> ('e, 'net) world \<Rightarrow>
                 ('e thrown + 'n output_obj) \<times> ('e, 'net) world) \<times> ('e, 'net) world)) =
           console w @ [console_debug (''SomeOption = '' @ template_string (SomeOption opts))]"
  by (simp add: getRunner_def)

text \<open>
  With a server that cannot be reached the construction leaves the network untouched and
  returns the runner; the first request is sent, and fails, when the runner is called.
\<close>

theorem construction_effects_witness:
  "network (snd (getRunner
       (unreachable ''ECONNREFUSED''
          :: (client_config, unit, real, string, query_params list) clickhouse)
       local_options quiet
     :: (string \<Rightarrow> string \<Rightarrow> (string, query_params list) world \<Rightarrow>
           (string thrown + real output_obj) \<times> (string, query_params list) world)
        \<times> (string, query_params list) world)) = [] \<and>
   fst (getRunner
       (unreachable ''ECONNREFUSED''
          :: (client_config, unit, real, string, query_params list) clickhouse)
       local_options quiet) ''SELECT 1'' ''q.sql''
     (snd (getRunner
       (unreachable ''ECONNREFUSED''
          :: (client_config, unit, real, string, query_params list) clickhouse)
       local_options quiet
     :: (string \<Rightarrow> string \<Rightarrow> (string, query_params list) world \<Rightarrow>
           (string thrown + real output_obj) \<times> (string, query_params list) world)
        \<times> (string, query_params list) world)) =
     (Inl (Rejected ''ECONNREFUSED''),
      \<lparr>console = [console_debug ''SomeOption = undefined'',
                  console_error ''Error executing query:'' (Rejected ''ECONNREFUSED'')],
       network = [\<lparr>query = ''SELECT 1'', format = ''JSONEachRow''\<rparr>]\<rparr>)"
proof -
  note c = construction_effects
    [where lib = "unreachable ''ECONNREFUSED''
          :: (client_config, unit, real, string, query_params list) clickhouse"
       and opts = local_options and w = "quiet :: (string, query_params list) world"
       and ?'p = string]
  have n: "network (snd (getRunner
       (unreachable ''ECONNREFUSED''
          :: (client_config, unit, real, string, query_params list) clickhouse)
       local_options quiet
     :: (string \<Rightarrow> string \<Rightarrow> (string, query_params list) world \<Rightarrow>
           (string thrown + real output_obj) \<times> (string, query_params list) world)
        \<times> (string, query_params list) world)) = []"
    using c by (simp add: quiet_def)
  have r: "fst (getRunner
       (unreachable ''ECONNREFUSED''
          :: (client_config, unit, real, string, query_params list) clickhouse)
       local_options quiet) ''SELECT 1'' ''q.sql''
     (snd (getRunner
       (unreachable ''ECONNREFUSED''
          :: (client_config, unit, real, string, query_params list) clickhouse)
       local_options quiet
     :: (string \<Rightarrow> string \<Rightarrow> (string, query_params list) world \<Rightarrow>
           (string thrown + real output_obj) \<times> (string, query_params list) world)
        \<times> (string, query_params list) world)) =
     (Inl (Rejected ''ECONNREFUSED''),
      \<lparr>console = [console_debug ''SomeOption = undefined'',
                  console_error ''Error executing query:'' (Rejected ''ECONNREFUSED'')],
       network = [\<lparr>query = ''SELECT 1'', format = ''JSONEachRow''\<rparr>]\<rparr>)"
    by (simp add: getRunner_def runner_def try_block_def unreachable_def local_options_def
        quiet_def template_string_def)
  show ?thesis
    using n r by (intro conjI)
qed

text \<open>
  C9: the runner does not read its second argument. Two calls that differ in it alone
  have the same outcome and leave the same console and the same network behind.
\<close>

theorem queryPath_is_not_read:
  "runner lib client q p1 w = runner lib client q p2 w \<and>
   fst (getRunner lib opts w0) q p3 w = fst (getRunner lib opts w0) q p4 w"
  by (simp add: getRunner_def runner_def)

text \<open>
  C10 as stated asks that the password is in no console entry of the connector. The
  entry of the error path holds the thrown value as it is: with a client whose rejection
  carries the configuration of its handle, the console shows the password and changes
  with it.
\<close>

theorem password_reaches_the_console:
  "console (snd (fst (getRunner
         (telling :: (client_config, unit, real, client_config, query_params list) clickhouse)
         local_options quiet) ''SELECT 1'' ''q.sql''
       (snd (getRunner
         (telling :: (client_config, unit, real, client_config, query_params list) clickhouse)
         local_options quiet
       :: (string \<Rightarrow> string \<Rightarrow> (client_config, query_params list) world \<Rightarrow>
             (client_config thrown + real output_obj) \<times> (client_config, query_params list) world)
          \<times> (client_config, query_params list) world)))) =
     [console_debug ''SomeOption = undefined'',
      console_error ''Error executing query:''
        (Rejected \<lparr>url = Some ''http://localhost:8123'', username = Some ''default'',
                    password = Some ''hunter2''\<rparr>)] \<and>
   console (snd (fst (getRunner
         (telling :: (client_config, unit, real, client_config, query_params list) clickhouse)
         (local_options\<lparr>password := Some ''correct horse''\<rparr>) quiet) ''SELECT 1'' ''q.sql''
       (snd (getRunner
         (telling :: (client_config, unit, real, client_config, query_params list) clickhouse)
         (local_options\<lparr>password := Some ''correct horse''\<rparr>) quiet
       :: (string \<Rightarrow> string \<Rightarrow> (client_config, query_params list) world \<Rightarrow>
             (client_config thrown + real output_obj) \<times> (client_config, query_params list) world)
          \<times> (client_config, query_params list) world)))) \<noteq>
   console (snd (fst (getRunner
         (telling :: (client_config, unit, real, client_config, query_params list) clickhouse)
         local_options quiet) ''SELECT 1'' ''q.sql''
       (snd (getRunner
         (telling :: (client_config, unit, real, client_config, query_params list) clickhouse)
         local_options quiet
       :: (string \<Rightarrow> string \<Rightarrow> (client_config, query_params list) world \<Rightarrow>
             (client_config thrown + real output_obj) \<times> (client_config, query_params list) world)
          \<times> (client_config, query_params list) world))))"
  by (simp add: getRunner_def runner_def try_block_def telling_def local_options_def
      quiet_def template_string_def)

text \<open>
  C10, amended: the debug line of the construction is the same whatever the password
  is, so the password is in no console entry of the construction. On the error path the
  runner adds one entry, a fixed text and the thrown value as it is, and nothing when it
  returns a result: the password is on the console only inside a value that the client
  rejected with. Two runners whose handles differ, in the password for one, write the
  same whenever the client answers them alike.
\<close>

theorem password_only_in_thrown_value:
  fixes lib :: "('h, 'rs, 'n, 'e, 'net) clickhouse"
  shows "console (snd (getRunner lib (opts\<lparr>password := pw\<rparr>) w
           :: (string \<Rightarrow> 'p \<Rightarrow> ('e, 'net) world \<Rightarrow>
                 ('e thrown + 'n output_obj) \<times> ('e, 'net) world) \<times> ('e, 'net) world)) =
         console (snd (getRunner lib opts w
           :: (string \<Rightarrow> 'p \<Rightarrow> ('e, 'net) world \<Rightarrow>
                 ('e thrown + 'n output_obj) \<times> ('e, 'net) world) \<times> ('e, 'net) world)) \<and>
         console (snd (runner lib client q p w)) =
           console w @
             (case fst (runner lib client q p w) of
                Inl error \<Rightarrow> [console_error ''Error executing query:'' error]
              | Inr out \<Rightarrow> []) \<and>
         (client_query lib c1 \<lparr>query = q, format = ''JSONEachRow''\<rparr> (network w) =
            client_query lib c2 \<lparr>query = q, format = ''JSONEachRow''\<rparr> (network w) \<longrightarrow>
          console (snd (runner lib c1 q p w)) = console (snd (runner lib c2 q p w)))"
proof -
  have "console (snd (runner lib client q p w)) =
          console w @
            (case fst (runner lib client q p w) of
               Inl error \<Rightarrow> [console_error ''Error executing query:'' error]
             | Inr out \<Rightarrow> [])"
    by (simp add: runner_def split: prod.split sum.split)
  moreover have "console (snd (runner lib c1 q p w)) = console (snd (runner lib c2 q p w))"
    if "client_query lib c1 \<lparr>query = q, format = ''JSONEachRow''\<rparr> (network w) =
        client_query lib c2 \<lparr>query = q, format = ''JSONEachRow''\<rparr> (network w)"
    using that by (simp add: runner_def try_block_def)
  ultimately show ?thesis
    by (simp add: getRunner_def)
qed

theorem password_only_in_thrown_value_witness:
  "client_query
       (unreachable ''ECONNREFUSED''
          :: (client_config, unit, real, string, query_params list) clickhouse)
       local_client \<lparr>query = ''SELECT 1'', format = ''JSONEachRow''\<rparr>
       (network (quiet :: (string, query_params list) world)) =
     client_query
       (unreachable ''ECONNREFUSED''
          :: (client_config, unit, real, string, query_params list) clickhouse)
       (local_client\<lparr>password := Some ''correct horse''\<rparr>)
       \<lparr>query = ''SELECT 1'', format = ''JSONEachRow''\<rparr>
       (network (quiet :: (string, query_params list) world)) \<and>
   console (snd (runner
       (unreachable ''ECONNREFUSED''
          :: (client_config, unit, real, string, query_params list) clickhouse)
       local_client ''SELECT 1'' ''q.sql'' quiet)) =
     console (snd (runner
       (unreachable ''ECONNREFUSED''
          :: (client_config, unit, real, string, query_params list) clickhouse)
       (local_client\<lparr>password := Some ''correct horse''\<rparr>) ''SELECT 1'' ''q.sql'' quiet)) \<and>
   console (snd (runner
       (unreachable ''ECONNREFUSED''
          :: (client_config, unit, real, string, query_params list) clickhouse)
       local_client ''SELECT 1'' ''q.sql'' quiet)) =
     [console_error ''Error executing query:'' (Rejected ''ECONNREFUSED'')]"
proof -
  have h: "client_query
       (unreachable ''ECONNREFUSED''
          :: (client_config, unit, real, string, query_params list) clickhouse)
       local_client \<lparr>query = ''SELECT 1'', format = ''JSONEachRow''\<rparr>
       (network (quiet :: (string, query_params list) world)) =
     client_query
       (unreachable ''ECONNREFUSED''
          :: (client_config, unit, real, string, query_params list) clickhouse)
       (local_client\<lparr>password := Some ''correct horse''\<rparr>)
       \<lparr>query = ''SELECT 1'', format = ''JSONEachRow''\<rparr>
       (network (quiet :: (string, query_params list) world))"
    by (simp add: unreachable_def)
  have r: "fst (runner
       (unreachable ''ECONNREFUSED''
          :: (client_config, unit, real, string, query_params list) clickhouse)
       local_client ''SELECT 1'' ''q.sql'' (quiet :: (string, query_params list) world)) =
     Inl (Rejected ''ECONNREFUSED'')"
    by (simp add: runner_def try_block_def unreachable_def)
  have q: "console (quiet :: (string, query_params list) world) = []"
    by (simp add: quiet_def)
  note p = password_only_in_thrown_value
    [where lib = "unreachable ''ECONNREFUSED''
          :: (client_config, unit, real, string, query_params list) clickhouse"
       and q = "''SELECT 1''" and p = "''q.sql''"
       and w = "quiet :: (string, query_params list) world" and client = local_client
       and ?c1.0 = local_client and ?c2.0 = "local_client\<lparr>password := Some ''correct horse''\<rparr>"]
  from p h have same: "console (snd (runner
       (unreachable ''ECONNREFUSED''
          :: (client_config, unit, real, string, query_params list) clickhouse)
       local_client ''SELECT 1'' ''q.sql'' (quiet :: (string, query_params list) world))) =
     console (snd (runner
       (unreachable ''ECONNREFUSED''
          :: (client_config, unit, real, string, query_params list) clickhouse)
       (local_client\<lparr>password := Some ''correct horse''\<rparr>) ''SELECT 1'' ''q.sql'' quiet))"
    by blast
  from p have "console (snd (runner
       (unreachable ''ECONNREFUSED''
          :: (client_config, unit, real, string, query_params list) clickhouse)
       local_client ''SELECT 1'' ''q.sql'' (quiet :: (string, query_params list) world))) =
     console (quiet :: (string, query_params list) world) @
       (case fst (runner
           (unreachable ''ECONNREFUSED''
              :: (client_config, unit, real, string, query_params list) clickhouse)
           local_client ''SELECT 1'' ''q.sql'' (quiet :: (string, query_params list) world)) of
          Inl error \<Rightarrow> [console_error ''Error executing query:'' error]
        | Inr out \<Rightarrow> [])"
    by blast
  then have entry: "console (snd (runner
       (unreachable ''ECONNREFUSED''
          :: (client_config, unit, real, string, query_params list) clickhouse)
       local_client ''SELECT 1'' ''q.sql'' (quiet :: (string, query_params list) world))) =
     [console_error ''Error executing query:'' (Rejected ''ECONNREFUSED'')]"
    by (simp add: r q)
  show ?thesis
    using h same entry by (intro conjI)
qed

end
